theory Spec2Isabelle
  imports Complex_Main
begin

section \<open>Raster algebra of the script\<close>

text \<open>
  The script is a straight-line Earth Engine program: every \<^verbatim>\<open>var\<close> is an image, a
  number or a table computed from the earlier ones. An image is modelled as a function
  from grid cells to an optional value; \<open>None\<close> is a masked (no-data) cell. Cell values
  are real numbers: the rounding of the double-precision arithmetic of the platform is
  not modelled, and all rasters are taken on one common grid (\<^verbatim>\<open>setDefaultProjection\<close>
  does not change a value).
\<close>

type_synonym coord = "int \<times> int"
type_synonym image = "coord \<Rightarrow> real option"

text \<open>\<^verbatim>\<open>ee.Image.constant(v)\<close>: the value \<open>v\<close> in every cell, nothing masked.\<close>

definition constant_im :: "real \<Rightarrow> image" where
  "constant_im v = (\<lambda>p. Some v)"

text \<open>\<^verbatim>\<open>image.clip(geometry)\<close>: cells outside the geometry are masked.\<close>

definition clip :: "image \<Rightarrow> coord set \<Rightarrow> image" where
  "clip im g = (\<lambda>p. if p \<in> g then im p else None)"

text \<open>A binary cell-wise operator: the result is masked where either operand is.\<close>

definition binop :: "(real \<Rightarrow> real \<Rightarrow> real) \<Rightarrow> image \<Rightarrow> image \<Rightarrow> image" where
  "binop f a b = (\<lambda>p. case a p of None \<Rightarrow> None
                       | Some x \<Rightarrow> (case b p of None \<Rightarrow> None | Some y \<Rightarrow> Some (f x y)))"

definition unop :: "(real \<Rightarrow> real) \<Rightarrow> image \<Rightarrow> image" where
  "unop f a = (\<lambda>p. case a p of None \<Rightarrow> None | Some x \<Rightarrow> Some (f x))"

definition multiply :: "image \<Rightarrow> image \<Rightarrow> image" where
  "multiply = binop (\<lambda>x y. x * y)"

definition subtract :: "image \<Rightarrow> image \<Rightarrow> image" where
  "subtract = binop (\<lambda>x y. x - y)"

text \<open>
  \<^verbatim>\<open>image.divide(image2)\<close>: Earth Engine documents the operator as returning 0 for
  a division by 0, and the model writes that case out.
\<close>

definition divide_px :: "real \<Rightarrow> real \<Rightarrow> real" where
  "divide_px x y = (if y = 0 then 0 else x / y)"

definition divide_im :: "image \<Rightarrow> image \<Rightarrow> image" where
  "divide_im = binop divide_px"

text \<open>
  \<^verbatim>\<open>tan\<close>, \<^verbatim>\<open>cos\<close>, \<^verbatim>\<open>atan\<close> and \<^verbatim>\<open>abs\<close> are the exact real functions, so that
  \<open>arctan (tan s)\<close> is \<open>s\<close> on \<open>(- pi/2, pi/2)\<close>; the platform's doubles agree with this up
  to rounding only.
\<close>

definition tan_im :: "image \<Rightarrow> image" where
  "tan_im = unop tan"

definition cos_im :: "image \<Rightarrow> image" where
  "cos_im = unop cos"

definition atan_im :: "image \<Rightarrow> image" where
  "atan_im = unop arctan"

definition abs_im :: "image \<Rightarrow> image" where
  "abs_im = unop abs"

section \<open>Inputs of the script\<close>

text \<open>
  What the script reads from the platform: the landslide inventory, the slope and aspect
  rasters of the DEM (degrees), the \<^verbatim>\<open>angle\<close> band of the selected Sentinel-1 image
  (degrees) with the footprint of that image, and the look direction printed at line 52
  (degrees). The perpendicular baseline is the number assigned at line 151, where the
  script sets the example value 150.
\<close>

record feature =
  object_id :: string
  footprint :: "coord list"

record inputs =
  landslides :: "feature list"
  slopeReprojected :: image
  aspectReprojected :: image
  angle :: image
  geom_s1 :: "coord set"
  look_dir :: real
  Bperp :: real

section \<open>Radar geometry (lines 54 to 77)\<close>

definition theta_iRad :: "inputs \<Rightarrow> image" where
  "theta_iRad inp = clip (multiply (angle inp) (constant_im (pi / 180))) (geom_s1 inp)"

definition phi_iRad :: "inputs \<Rightarrow> image" where
  "phi_iRad inp = multiply (constant_im (look_dir inp)) (constant_im (pi / 180))"

definition alpha_sRad :: "inputs \<Rightarrow> image" where
  "alpha_sRad inp = clip (multiply (slopeReprojected inp) (constant_im (pi / 180))) (geom_s1 inp)"

definition phi_sRad :: "inputs \<Rightarrow> image" where
  "phi_sRad inp = clip (multiply (aspectReprojected inp) (constant_im (pi / 180))) (geom_s1 inp)"

definition phi_rRad :: "inputs \<Rightarrow> image" where
  "phi_rRad inp = subtract (phi_iRad inp) (phi_sRad inp)"

definition alpha_rRad :: "inputs \<Rightarrow> image" where
  "alpha_rRad inp = atan_im (multiply (tan_im (alpha_sRad inp)) (cos_im (phi_rRad inp)))"

definition theta_iRad_loc :: "inputs \<Rightarrow> image" where
  "theta_iRad_loc inp = subtract (theta_iRad inp) (alpha_rRad inp)"

section \<open>Geometric coherence (lines 150 to 160)\<close>

definition c :: real where
  "c = 299792458"

definition c_im :: "inputs \<Rightarrow> image" where
  "c_im inp = clip (constant_im c) (geom_s1 inp)"

definition lambda :: "inputs \<Rightarrow> image" where
  "lambda inp = clip (constant_im 0.05547) (geom_s1 inp)"

definition r :: "inputs \<Rightarrow> image" where
  "r inp = clip (constant_im 693000) (geom_s1 inp)"

definition Bw :: "inputs \<Rightarrow> image" where
  "Bw inp = clip (constant_im 48300000) (geom_s1 inp)"

definition Bp :: "inputs \<Rightarrow> image" where
  "Bp inp = clip (constant_im (Bperp inp)) (geom_s1 inp)"

definition ones :: "inputs \<Rightarrow> image" where
  "ones inp = clip (constant_im 1.0) (geom_s1 inp)"

definition coh_geom :: "inputs \<Rightarrow> image" where
  "coh_geom inp =
     subtract (ones inp)
       (divide_im (multiply (c_im inp) (Bp inp))
          (multiply (multiply (multiply (lambda inp) (r inp)) (abs_im (tan_im (theta_iRad_loc inp))))
             (Bw inp)))"

section \<open>Zonal statistics and exports (lines 79 to 175)\<close>

text \<open>
  \<^verbatim>\<open>ee.Reducer.median()\<close> over the unmasked cells of a polygon: no output (null) for
  no input, the middle value of the sorted inputs, and the mean of the two middle values
  for an even count. The \<open>footprint\<close> of a feature lists the cells the polygon covers at
  the scale of the reduction; the weighting of partly covered cells is not modelled.
\<close>

definition median :: "real list \<Rightarrow> real option" where
  "median xs =
     (if xs = [] then None
      else let s = sort xs; n = length s in
        if odd n then Some (s ! (n div 2))
        else Some ((s ! (n div 2 - 1) + s ! (n div 2)) / 2))"

fun valid_values :: "image \<Rightarrow> coord list \<Rightarrow> real list" where
  "valid_values im [] = []"
| "valid_values im (p # ps) =
     (case im p of None \<Rightarrow> valid_values im ps | Some v \<Rightarrow> v # valid_values im ps)"

text \<open>
  \<^verbatim>\<open>image.reduceRegions({collection: landslides.select(['object_id']), reducer:
  ee.Reducer.median(), scale: 10})\<close>: one row per feature, in the order of the
  collection, holding the identifier and the statistic (or null).
\<close>

type_synonym table = "(string \<times> real option) list"

definition reduce_feature :: "image \<Rightarrow> feature \<Rightarrow> string \<times> real option" where
  "reduce_feature im f = (object_id f, median (valid_values im (footprint f)))"

definition reduceRegions :: "image \<Rightarrow> feature list \<Rightarrow> table" where
  "reduceRegions im fs = map (reduce_feature im) fs"

definition ls_theta :: "inputs \<Rightarrow> table" where
  "ls_theta inp = reduceRegions (theta_iRad inp) (landslides inp)"

definition ls_alpha :: "inputs \<Rightarrow> table" where
  "ls_alpha inp = reduceRegions (alpha_rRad inp) (landslides inp)"

definition ls_slope :: "inputs \<Rightarrow> table" where
  "ls_slope inp = reduceRegions (alpha_sRad inp) (landslides inp)"

definition ls_aspect :: "inputs \<Rightarrow> table" where
  "ls_aspect inp = reduceRegions (phi_sRad inp) (landslides inp)"

definition ls_theta_alpha_difference :: "inputs \<Rightarrow> table" where
  "ls_theta_alpha_difference inp = reduceRegions (theta_iRad_loc inp) (landslides inp)"

definition ls_modelled_coh_geom :: "inputs \<Rightarrow> table" where
  "ls_modelled_coh_geom inp = reduceRegions (coh_geom inp) (landslides inp)"

text \<open>
  The six \<^verbatim>\<open>Export.table.toDrive\<close> calls, in the order of the script: the description
  of each export with the collection handed to it.
\<close>

definition exports :: "inputs \<Rightarrow> (string \<times> table) list" where
  "exports inp =
     [(''ls_theta_T019D'', ls_theta inp),
      (''ls_slope_in_LOS_T019D'', ls_alpha inp),
      (''ls_slopes'', ls_slope inp),
      (''ls_aspects'', ls_slope inp),
      (''ls_theta_alpha_difference_T019D'', ls_theta inp),
      (''ls_modelled_coh_geom_T019D'', ls_modelled_coh_geom inp)]"

section \<open>A one-cell scene for concrete evaluations\<close>

text \<open>
  One landslide covering the single cell \<open>(0, 0)\<close> of the Sentinel-1 footprint, with the
  given slope, aspect, incidence angle and look direction (all in degrees) and the given
  perpendicular baseline.
\<close>

definition scene :: "real \<Rightarrow> real \<Rightarrow> real \<Rightarrow> real \<Rightarrow> real \<Rightarrow> inputs" where
  "scene slope aspect ang look B =
     \<lparr>landslides = [\<lparr>object_id = ''landslide1'', footprint = [(0, 0)]\<rparr>],
      slopeReprojected = constant_im slope,
      aspectReprojected = constant_im aspect,
      angle = constant_im ang,
      geom_s1 = {(0, 0)},
      look_dir = look,
      Bperp = B\<rparr>"

section \<open>Cell values of the derived rasters\<close>

lemma theta_iRad_px:
  "theta_iRad inp p =
     (if p \<in> geom_s1 inp then map_option (\<lambda>d. d * (pi / 180)) (angle inp p) else None)"
  by (simp add: theta_iRad_def clip_def multiply_def binop_def constant_im_def
      split: option.splits)

lemma alpha_sRad_px:
  "alpha_sRad inp p =
     (if p \<in> geom_s1 inp then map_option (\<lambda>d. d * (pi / 180)) (slopeReprojected inp p) else None)"
  by (simp add: alpha_sRad_def clip_def multiply_def binop_def constant_im_def
      split: option.splits)

lemma phi_sRad_px:
  "phi_sRad inp p =
     (if p \<in> geom_s1 inp then map_option (\<lambda>d. d * (pi / 180)) (aspectReprojected inp p) else None)"
  by (simp add: phi_sRad_def clip_def multiply_def binop_def constant_im_def
      split: option.splits)

lemma phi_rRad_px:
  "phi_rRad inp p = map_option (\<lambda>ps. look_dir inp * (pi / 180) - ps) (phi_sRad inp p)"
  by (simp add: phi_rRad_def phi_iRad_def subtract_def multiply_def binop_def constant_im_def
      split: option.splits)

lemma alpha_rRad_px:
  "alpha_rRad inp p =
     (case alpha_sRad inp p of None \<Rightarrow> None
      | Some s \<Rightarrow> (case phi_rRad inp p of None \<Rightarrow> None
                   | Some ph \<Rightarrow> Some (arctan (tan s * cos ph))))"
  by (simp add: alpha_rRad_def atan_im_def tan_im_def cos_im_def multiply_def unop_def binop_def
      split: option.splits)

lemma theta_iRad_loc_px:
  "theta_iRad_loc inp p =
     (case theta_iRad inp p of None \<Rightarrow> None
      | Some th \<Rightarrow> (case alpha_rRad inp p of None \<Rightarrow> None | Some a \<Rightarrow> Some (th - a)))"
  by (simp add: theta_iRad_loc_def subtract_def binop_def)

lemma theta_iRad_loc_outside: "p \<notin> geom_s1 inp \<Longrightarrow> theta_iRad_loc inp p = None"
  by (simp add: theta_iRad_loc_px theta_iRad_px)

text \<open>
  The coherence raster, cell by cell: masked exactly where the local incidence angle is,
  and otherwise the formula of line 160 with the operands in the order of the script.
\<close>

lemma coh_geom_px:
  "coh_geom inp p =
     map_option (\<lambda>th. 1 - divide_px (c * Bperp inp) (0.05547 * 693000 * \<bar>tan th\<bar> * 48300000))
       (theta_iRad_loc inp p)"
proof (cases "theta_iRad_loc inp p")
  case None
  then show ?thesis
    by (simp add: coh_geom_def subtract_def divide_im_def multiply_def abs_im_def tan_im_def
        binop_def unop_def split: option.splits)
next
  case (Some th)
  then have "p \<in> geom_s1 inp"
    using theta_iRad_loc_outside [of p inp] by auto
  with Some show ?thesis
    by (simp add: coh_geom_def subtract_def divide_im_def multiply_def abs_im_def tan_im_def
        ones_def c_im_def Bp_def lambda_def r_def Bw_def clip_def constant_im_def binop_def unop_def)
qed

subsection \<open>The one-cell scene\<close>

lemma scene_alpha_sRad: "alpha_sRad (scene sl asp ang look B) (0, 0) = Some (sl * (pi / 180))"
  by (simp add: alpha_sRad_px scene_def constant_im_def)

lemma scene_theta_iRad: "theta_iRad (scene sl asp ang look B) (0, 0) = Some (ang * (pi / 180))"
  by (simp add: theta_iRad_px scene_def constant_im_def)

lemma scene_phi_sRad: "phi_sRad (scene sl asp ang look B) (0, 0) = Some (asp * (pi / 180))"
  by (simp add: phi_sRad_px scene_def constant_im_def)

lemma scene_phi_rRad:
  "phi_rRad (scene sl asp ang look B) (0, 0) = Some (look * (pi / 180) - asp * (pi / 180))"
  by (simp add: phi_rRad_px scene_phi_sRad) (simp add: scene_def)

section \<open>Range-direction slope and local incidence angle\<close>

text \<open>
  Over the exact reals the projection does not exceed the slope. The bound is attained
  at \<open>cos ph = 1\<close> and \<open>cos ph = - 1\<close>, where it rests on \<open>arctan (tan s) = s\<close>; it says
  nothing about the rounded values of the platform there.
\<close>

lemma alpha_r_le_slope:
  assumes "0 \<le> s" "s < pi / 2"
  shows "\<bar>arctan (tan s * cos ph)\<bar> \<le> s"
proof -
  have t: "0 \<le> tan s" using assms by (rule tan_pos_pi2_le)
  have "\<bar>tan s * cos ph\<bar> \<le> tan s"
    using t abs_cos_le_one [of ph] by (simp add: abs_mult mult_left_le)
  then have "- tan s \<le> tan s * cos ph" "tan s * cos ph \<le> tan s" by linarith+
  then have "arctan (- tan s) \<le> arctan (tan s * cos ph)" "arctan (tan s * cos ph) \<le> arctan (tan s)"
    by (simp_all only: arctan_le_iff)
  moreover have "arctan (tan s) = s" using assms by (intro arctan_tan) linarith+
  ultimately show ?thesis by (simp add: arctan_minus)
qed

text \<open>
  Claim C3. At every cell where the slope \<open>alpha_sRad\<close> and the relative aspect
  \<open>phi_rRad\<close> are defined, the range-direction slope \<open>alpha_rRad\<close> is
  \<open>arctan (tan alpha_s * cos phi_r)\<close>, and where the incidence angle is defined the local
  incidence angle \<open>theta_iRad_loc\<close> is \<open>theta_i - alpha_r\<close>. In particular a slope of 30
  degrees gives a range slope of 30 degrees at relative aspect 0 and of 0 at relative
  aspect 90 degrees, and an incidence angle of 40 degrees with a range slope of 30 degrees
  gives a local incidence angle of 10 degrees. (Angles are exact real numbers here.)
\<close>

theorem range_slope_formula:
  "(\<forall>s ph. alpha_sRad inp p = Some s \<longrightarrow> phi_rRad inp p = Some ph \<longrightarrow>
      alpha_rRad inp p = Some (arctan (tan s * cos ph)))
   \<and> (\<forall>th a. theta_iRad inp p = Some th \<longrightarrow> alpha_rRad inp p = Some a \<longrightarrow>
      theta_iRad_loc inp p = Some (th - a))
   \<and> (alpha_sRad inp p = Some (30 * (pi / 180)) \<longrightarrow> phi_rRad inp p = Some 0 \<longrightarrow>
      alpha_rRad inp p = Some (30 * (pi / 180)))
   \<and> (alpha_sRad inp p = Some (30 * (pi / 180)) \<longrightarrow> phi_rRad inp p = Some (90 * (pi / 180)) \<longrightarrow>
      alpha_rRad inp p = Some 0)
   \<and> (theta_iRad inp p = Some (40 * (pi / 180)) \<longrightarrow> alpha_rRad inp p = Some (30 * (pi / 180)) \<longrightarrow>
      theta_iRad_loc inp p = Some (10 * (pi / 180)))"
proof -
  have "arctan (tan (30 * (pi / 180))) = 30 * (pi / 180)"
    by (rule arctan_tan) (use pi_gt_zero in simp_all)
  then show ?thesis
    by (simp add: alpha_rRad_px theta_iRad_loc_px)
qed

theorem range_slope_formula_witness:
  "alpha_rRad (scene 30 0 40 0 150) (0, 0) = Some (pi / 6)
   \<and> theta_iRad_loc (scene 30 0 40 0 150) (0, 0) = Some (pi / 18)
   \<and> alpha_rRad (scene 30 0 40 90 150) (0, 0) = Some 0"
  using range_slope_formula [of "scene 30 0 40 0 150" "(0, 0)"]
    range_slope_formula [of "scene 30 0 40 90 150" "(0, 0)"]
  by (simp add: scene_alpha_sRad scene_theta_iRad scene_phi_rRad)

text \<open>
  Claim C9. Wherever the range-direction slope is defined it lies strictly between
  \<open>- pi/2\<close> and \<open>pi/2\<close>, so the local incidence angle, where defined, lies strictly between
  \<open>theta_i - pi/2\<close> and \<open>theta_i + pi/2\<close>.
\<close>

theorem range_slope_within_quarter_turn:
  "(\<forall>a. alpha_rRad inp p = Some a \<longrightarrow> - (pi / 2) < a \<and> a < pi / 2)
   \<and> (\<forall>th tl. theta_iRad inp p = Some th \<longrightarrow> theta_iRad_loc inp p = Some tl \<longrightarrow>
        th - pi / 2 < tl \<and> tl < th + pi / 2)"
proof -
  have b: "- (pi / 2) < arctan x \<and> arctan x < pi / 2" for x
    using arctan_lbound arctan_ubound by blast
  have a: "\<And>a. alpha_rRad inp p = Some a \<Longrightarrow> - (pi / 2) < a \<and> a < pi / 2"
    using b by (auto simp: alpha_rRad_px split: option.splits)
  show ?thesis
  proof (intro conjI allI impI)
    fix th tl
    assume "theta_iRad inp p = Some th" "theta_iRad_loc inp p = Some tl"
    then obtain a0 where "alpha_rRad inp p = Some a0" "tl = th - a0"
      by (auto simp: theta_iRad_loc_px split: option.splits)
    with a [of a0] show "th - pi / 2 < tl" "tl < th + pi / 2" by simp_all
  qed (use a in blast)+
qed

theorem range_slope_within_quarter_turn_witness:
  "alpha_rRad (scene 45 0 40 0 150) (0, 0) = Some (pi / 4)
   \<and> theta_iRad (scene 45 0 40 0 150) (0, 0) = Some (2 * pi / 9)
   \<and> theta_iRad_loc (scene 45 0 40 0 150) (0, 0) = Some (- (pi / 36))
   \<and> - (pi / 2) < pi / 4 \<and> pi / 4 < pi / 2
   \<and> 2 * pi / 9 - pi / 2 < - (pi / 36) \<and> - (pi / 36) < 2 * pi / 9 + pi / 2"
proof -
  let ?i = "scene 45 0 40 0 150"
  have a: "alpha_rRad ?i (0, 0) = Some (pi / 4)"
    by (simp add: alpha_rRad_px scene_alpha_sRad scene_phi_rRad tan_45 arctan_one)
  have th: "theta_iRad ?i (0, 0) = Some (2 * pi / 9)"
    by (simp add: scene_theta_iRad)
  have tl: "theta_iRad_loc ?i (0, 0) = Some (- (pi / 36))"
    by (simp add: theta_iRad_loc_px a th)
  from range_slope_within_quarter_turn [of ?i "(0, 0)"] a th tl show ?thesis
    by blast
qed

section \<open>Modelled geometric coherence\<close>

lemma theta_iRad_loc_Bperp: "theta_iRad_loc (inp\<lparr>Bperp := B\<rparr>) = theta_iRad_loc inp"
  by (simp add: theta_iRad_loc_def theta_iRad_def alpha_rRad_def alpha_sRad_def phi_rRad_def
      phi_iRad_def phi_sRad_def)

lemma divide_px_nonneg: "0 \<le> x \<Longrightarrow> 0 \<le> y \<Longrightarrow> 0 \<le> divide_px x y"
  by (simp add: divide_px_def)

lemma divide_px_mono: "x \<le> x' \<Longrightarrow> 0 \<le> y \<Longrightarrow> divide_px x y \<le> divide_px x' y"
  by (simp add: divide_px_def divide_right_mono)

lemma denominator_nonneg: "0 \<le> 0.05547 * 693000 * \<bar>tan th\<bar> * (48300000::real)"
  by simp

lemma c_pos: "0 < c"
  by (simp add: c_def)

lemma scene_Bperp: "(scene sl asp ang look B)\<lparr>Bperp := B'\<rparr> = scene sl asp ang look B'"
  by (simp add: scene_def)

lemma scene_flat_theta_iRad_loc:
  "theta_iRad_loc (scene 0 asp ang look B) (0, 0) = Some (ang * (pi / 180))"
  by (simp add: theta_iRad_loc_px alpha_rRad_px scene_theta_iRad scene_alpha_sRad scene_phi_rRad)

text \<open>
  Claim C4. At a cell with a defined local incidence angle, and with the constants of the
  script, the modelled coherence is exactly 1 for a perpendicular baseline of 0, and it
  does not increase with the baseline: for \<open>0 \<le> B1 \<le> B2\<close> the coherence for \<open>B2\<close> is at
  most the one for \<open>B1\<close>. (Where \<open>tan\<close> of the local incidence angle is 0 the quotient is
  the documented 0 of the platform's division, for every baseline.)
\<close>

theorem coherence_antitone_in_baseline:
  "theta_iRad_loc inp p = Some th \<Longrightarrow>
     coh_geom (inp\<lparr>Bperp := 0\<rparr>) p = Some 1
     \<and> (\<forall>B1 B2. 0 \<le> B1 \<longrightarrow> B1 \<le> B2 \<longrightarrow>
          (\<exists>v1 v2. coh_geom (inp\<lparr>Bperp := B1\<rparr>) p = Some v1
                 \<and> coh_geom (inp\<lparr>Bperp := B2\<rparr>) p = Some v2 \<and> v2 \<le> v1))"
proof -
  assume th: "theta_iRad_loc inp p = Some th"
  have "divide_px (c * B1) (0.05547 * 693000 * \<bar>tan th\<bar> * 48300000)
        \<le> divide_px (c * B2) (0.05547 * 693000 * \<bar>tan th\<bar> * 48300000)" if "B1 \<le> B2" for B1 B2
  proof (rule divide_px_mono)
    show "c * B1 \<le> c * B2" using that c_pos by simp
  qed (rule denominator_nonneg)
  then show ?thesis
    using th by (simp add: coh_geom_px theta_iRad_loc_Bperp) (simp add: divide_px_def)
qed

theorem coherence_antitone_in_baseline_witness:
  "coh_geom (scene 0 0 40 0 0) (0, 0) = Some 1
   \<and> (\<exists>v1 v2. coh_geom (scene 0 0 40 0 100) (0, 0) = Some v1
             \<and> coh_geom (scene 0 0 40 0 150) (0, 0) = Some v2 \<and> v2 \<le> v1)"
  using coherence_antitone_in_baseline [of "scene 0 0 40 0 150" "(0, 0)" "40 * (pi / 180)"]
  by (simp add: scene_flat_theta_iRad_loc scene_Bperp)

text \<open>
  Claim C10. At a cell where \<open>tan\<close> of the local incidence angle is not 0, and for a
  baseline \<open>Bperp \<ge> 0\<close>, the subtracted term is non-negative and the coherence, which is
  1 minus that term with no clamp applied, is at most 1. The coherence depends on the
  local incidence angle through \<open>\<bar>tan\<bar>\<close> only: two cells with opposite local incidence
  angles and the same baseline have the same coherence.
\<close>

theorem raw_coherence_at_most_one:
  "(\<forall>th. theta_iRad_loc inp p = Some th \<longrightarrow> tan th \<noteq> 0 \<longrightarrow> 0 \<le> Bperp inp \<longrightarrow>
      0 \<le> c * Bperp inp / (0.05547 * 693000 * 48300000 * \<bar>tan th\<bar>)
      \<and> coh_geom inp p = Some (1 - c * Bperp inp / (0.05547 * 693000 * 48300000 * \<bar>tan th\<bar>))
      \<and> (\<exists>v. coh_geom inp p = Some v \<and> v \<le> 1))
   \<and> (\<forall>th inp' p'. theta_iRad_loc inp p = Some th \<longrightarrow> theta_iRad_loc inp' p' = Some (- th) \<longrightarrow>
        Bperp inp' = Bperp inp \<longrightarrow> coh_geom inp' p' = coh_geom inp p)"
proof (intro conjI allI impI)
  fix th
  assume th: "theta_iRad_loc inp p = Some th" and B: "0 \<le> Bperp inp"
  show n: "0 \<le> c * Bperp inp / (0.05547 * 693000 * 48300000 * \<bar>tan th\<bar>)"
    using B c_pos by simp
  show e: "coh_geom inp p = Some (1 - c * Bperp inp / (0.05547 * 693000 * 48300000 * \<bar>tan th\<bar>))"
    using th by (simp add: coh_geom_px divide_px_def)
  show "\<exists>v. coh_geom inp p = Some v \<and> v \<le> 1"
    using n e by simp
next
  fix th inp' p'
  assume "theta_iRad_loc inp p = Some th" "theta_iRad_loc inp' p' = Some (- th)"
    "Bperp inp' = Bperp inp"
  then show "coh_geom inp' p' = coh_geom inp p"
    by (simp add: coh_geom_px)
qed

theorem raw_coherence_at_most_one_witness:
  "theta_iRad_loc (scene 0 0 45 0 150) (0, 0) = Some (pi / 4) \<and> tan (pi / 4) \<noteq> (0::real)
   \<and> (\<exists>v. coh_geom (scene 0 0 45 0 150) (0, 0) = Some v \<and> v \<le> 1)
   \<and> coh_geom (scene 0 0 (- 45) 0 150) (0, 0) = coh_geom (scene 0 0 45 0 150) (0, 0)"
proof -
  have a: "theta_iRad_loc (scene 0 0 45 0 150) (0, 0) = Some (pi / 4)"
    by (simp add: scene_flat_theta_iRad_loc)
  have b: "theta_iRad_loc (scene 0 0 (- 45) 0 150) (0, 0) = Some (- (pi / 4))"
    by (simp add: scene_flat_theta_iRad_loc)
  have t: "tan (pi / 4) \<noteq> (0::real)" by (simp add: tan_45)
  have B: "Bperp (scene 0 0 45 0 150) = 150" "Bperp (scene 0 0 (- 45) 0 150) = 150"
    by (simp_all add: scene_def)
  from raw_coherence_at_most_one [of "scene 0 0 45 0 150" "(0, 0)"] a b t B show ?thesis
    by (metis zero_le_numeral)
qed

lemma tan_one_degree: "0 < tan (pi / 180) \<and> tan (pi / 180) < 3 / 125"
proof -
  let ?x = "pi / 180"
  have x1: "?x < 1 / 45" using pi_less_4 by simp
  have s: "sin ?x \<le> ?x" by (rule sin_x_le_x) simp
  have sh: "sin (?x / 2) \<le> ?x / 2" by (rule sin_x_le_x) simp
  have sh0: "0 \<le> sin (?x / 2)" by (rule sin_ge_zero) (use pi_gt_zero in simp_all)
  have "(sin (?x / 2))\<^sup>2 \<le> (?x / 2)\<^sup>2" using sh0 sh by (rule power_mono [rotated])
  moreover have "(?x / 2)\<^sup>2 \<le> (1 / 90)\<^sup>2"
    by (rule power_mono) (use x1 in simp_all)
  moreover have "cos ?x = 1 - 2 * (sin (?x / 2))\<^sup>2" using cos_double_sin [of "?x / 2"] by simp
  ultimately have cl: "4049 / 4050 \<le> cos ?x" by (simp add: power2_eq_square)
  then have cpos: "0 < cos ?x" by linarith
  have "sin ?x < 3 / 125 * cos ?x" using s x1 cl by linarith
  then have "tan ?x < 3 / 125" using cpos by (simp add: tan_def pos_divide_less_eq)
  moreover have "0 < tan ?x" by (rule tan_gt_zero) (use pi_gt_zero in simp_all)
  ultimately show ?thesis by simp
qed

lemma scene_45_46_theta_iRad_loc:
  "theta_iRad_loc (scene 45 0 46 0 150) (0, 0) = Some (pi / 180)"
  by (simp add: theta_iRad_loc_px alpha_rRad_px scene_theta_iRad scene_alpha_sRad scene_phi_rRad
      tan_45 arctan_one)

text \<open>
  Claim C1, as stated, fails: the script applies no clamp (the \<open>min\<close> and \<open>max\<close> of line
  161 are display parameters of the map layer). In the one-cell scene with a slope of 45
  degrees facing the sensor and an incidence angle of 46 degrees the local incidence
  angle is one degree, and the coherence of the cell is the negative number below.
\<close>

theorem coherence_not_clamped:
  "coh_geom (scene 45 0 46 0 150) (0, 0)
     = Some (1 - 299792458 * 150 / (0.05547 * 693000 * tan (pi / 180) * 48300000))
   \<and> 1 - 299792458 * 150 / (0.05547 * 693000 * tan (pi / 180) * 48300000) < (0::real)"
proof -
  have t: "0 < tan (pi / 180)" "tan (pi / 180) < 3 / 125"
    using tan_one_degree by simp_all
  have B: "Bperp (scene 45 0 46 0 150) = 150" by (simp add: scene_def)
  have "coh_geom (scene 45 0 46 0 150) (0, 0)
     = Some (1 - 299792458 * 150 / (0.05547 * 693000 * tan (pi / 180) * 48300000))"
    using t(1) by (simp add: coh_geom_px scene_45_46_theta_iRad_loc B divide_px_def c_def)
  moreover have "0.05547 * 693000 * tan (pi / 180) * 48300000 < 299792458 * (150::real)"
    using t(2) by simp
  then have "1 < 299792458 * 150 / (0.05547 * 693000 * tan (pi / 180) * 48300000)"
    using t(1) by (simp add: pos_less_divide_eq)
  ultimately show ?thesis by simp
qed

text \<open>
  Claim C1, amended. At every cell where \<open>tan\<close> of the local incidence angle is not 0,
  and for \<open>Bperp \<ge> 0\<close>, the coherence is the raw value of line 160, unclamped. It never
  exceeds 1; it is non-negative exactly when
  \<open>c * Bperp \<le> lambda * r * \<bar>tan theta_loc\<bar> * Bw\<close>, and negative otherwise. Nothing is
  said about the cells where that \<open>tan\<close> is 0.
\<close>

theorem coherence_unclamped_range:
  "theta_iRad_loc inp p = Some th \<Longrightarrow> tan th \<noteq> 0 \<Longrightarrow> 0 \<le> Bperp inp \<Longrightarrow>
     \<exists>v. coh_geom inp p = Some v
       \<and> v = 1 - c * Bperp inp / (0.05547 * 693000 * \<bar>tan th\<bar> * 48300000)
       \<and> v \<le> 1
       \<and> (0 \<le> v \<longleftrightarrow> c * Bperp inp \<le> 0.05547 * 693000 * \<bar>tan th\<bar> * 48300000)
       \<and> (v < 0 \<longleftrightarrow> 0.05547 * 693000 * \<bar>tan th\<bar> * 48300000 < c * Bperp inp)"
proof -
  assume th: "theta_iRad_loc inp p = Some th" and t: "tan th \<noteq> 0" and B: "0 \<le> Bperp inp"
  let ?d = "0.05547 * 693000 * \<bar>tan th\<bar> * (48300000::real)"
  let ?v = "1 - c * Bperp inp / ?d"
  have d: "0 < ?d" using t by simp
  have v: "coh_geom inp p = Some ?v" using th t by (simp add: coh_geom_px divide_px_def)
  have n: "0 \<le> c * Bperp inp" using B c_pos by simp
  have "0 \<le> c * Bperp inp / ?d" using n d by (intro divide_nonneg_pos)
  then have le: "?v \<le> 1" by simp
  have nz: "0 \<le> ?v \<longleftrightarrow> c * Bperp inp \<le> ?d"
    using d by (simp add: pos_divide_le_eq)
  then have ng: "?v < 0 \<longleftrightarrow> ?d < c * Bperp inp" by linarith
  from v le nz ng show ?thesis by blast
qed

theorem coherence_unclamped_range_witness:
  "(\<exists>v. coh_geom (scene 0 0 45 0 150) (0, 0) = Some v \<and> v \<le> 1 \<and> 0 \<le> v)
   \<and> (\<exists>v. coh_geom (scene 45 0 46 0 150) (0, 0) = Some v \<and> v \<le> 1 \<and> v < 0)"
proof -
  have a: "theta_iRad_loc (scene 0 0 45 0 150) (0, 0) = Some (pi / 4)"
    by (simp add: scene_flat_theta_iRad_loc)
  have t: "tan (pi / 4) \<noteq> (0::real)" by (simp add: tan_45)
  have B: "0 \<le> Bperp (scene sl asp ang look 150)" for sl asp ang look
    by (simp add: scene_def)
  have le: "c * Bperp (scene 0 0 45 0 150) \<le> 0.05547 * 693000 * \<bar>tan (pi / 4)\<bar> * 48300000"
    by (simp add: scene_def c_def tan_45)
  have t': "tan (pi / 180) \<noteq> (0::real)" using tan_one_degree by simp
  have gt: "0.05547 * 693000 * \<bar>tan (pi / 180)\<bar> * 48300000 < c * Bperp (scene 45 0 46 0 150)"
    using tan_one_degree by (simp add: scene_def c_def)
  from coherence_unclamped_range [OF a t B] le
  have "\<exists>v. coh_geom (scene 0 0 45 0 150) (0, 0) = Some v \<and> v \<le> 1 \<and> 0 \<le> v"
    by blast
  moreover from coherence_unclamped_range [OF scene_45_46_theta_iRad_loc t' B] gt
  have "\<exists>v. coh_geom (scene 45 0 46 0 150) (0, 0) = Some v \<and> v \<le> 1 \<and> v < 0"
    by blast
  ultimately show ?thesis by blast
qed

text \<open>
  Claim C7. With \<open>Bperp = 150\<close> and a local incidence angle of 0.6 rad the coherence of
  the cell, computed with the constants and the operand order of the script, is
  \<open>1 - (c * Bperp) / (lambda * r * Bw * \<bar>tan theta_loc\<bar>)\<close> for \<open>c = 299792458\<close>,
  \<open>lambda = 0.05547\<close>, \<open>r = 693000\<close>, \<open>Bw = 48300000\<close>, hence within a relative tolerance
  of \<open>10^-9\<close> of it; and with \<open>Bperp = 0\<close> it is exactly 1 at every defined local incidence
  angle. (Exact real arithmetic: the rounding of the platform's doubles is not modelled.)
\<close>

theorem reference_coherence:
  "(theta_iRad_loc inp p = Some 0.6 \<longrightarrow> Bperp inp = 150 \<longrightarrow>
      (\<exists>v. coh_geom inp p = Some v
        \<and> v = 1 - 299792458 * 150 / (0.05547 * 693000 * 48300000 * \<bar>tan 0.6\<bar>)
        \<and> \<bar>v - (1 - 299792458 * 150 / (0.05547 * 693000 * 48300000 * \<bar>tan 0.6\<bar>))\<bar>
            \<le> 1 / 10 ^ 9 * \<bar>1 - 299792458 * 150 / (0.05547 * 693000 * 48300000 * \<bar>tan 0.6\<bar>)\<bar>))
   \<and> (\<forall>th. theta_iRad_loc inp p = Some th \<longrightarrow> Bperp inp = 0 \<longrightarrow> coh_geom inp p = Some 1)"
  by (simp add: coh_geom_px divide_px_def c_def)

theorem reference_coherence_witness:
  "(\<exists>v. coh_geom (scene 0 0 (0.6 * 180 / pi) 0 150) (0, 0) = Some v
        \<and> v = 1 - 299792458 * 150 / (0.05547 * 693000 * 48300000 * \<bar>tan 0.6\<bar>))
   \<and> coh_geom (scene 0 0 (0.6 * 180 / pi) 0 0) (0, 0) = Some 1"
proof -
  have a: "theta_iRad_loc (scene 0 0 (0.6 * 180 / pi) 0 B) (0, 0) = Some 0.6" for B
    by (simp add: scene_flat_theta_iRad_loc)
  have B: "Bperp (scene 0 0 (0.6 * 180 / pi) 0 B) = B" for B by (simp add: scene_def)
  from reference_coherence [of "scene 0 0 (0.6 * 180 / pi) 0 150" "(0, 0)"]
    reference_coherence [of "scene 0 0 (0.6 * 180 / pi) 0 0" "(0, 0)"]
    a [of 150] a [of 0] B [of 150] B [of 0]
  show ?thesis by blast
qed

section \<open>Zonal medians and the exported tables\<close>

lemma valid_values_filter:
  "valid_values im ps = map the (filter (\<lambda>v. v \<noteq> None) (map im ps))"
  by (induction ps) (auto split: option.splits)

lemma valid_values_const:
  "\<forall>p \<in> set ps. im p = None \<or> im p = Some C \<Longrightarrow>
     valid_values im ps = replicate (length (valid_values im ps)) C"
  by (induction ps) (auto split: option.splits)

lemma valid_values_nonempty:
  "\<exists>p \<in> set ps. im p \<noteq> None \<Longrightarrow> valid_values im ps \<noteq> []"
  by (induction ps) (auto split: option.splits)

lemma valid_values_empty:
  "\<forall>p \<in> set ps. im p = None \<Longrightarrow> valid_values im ps = []"
  by (induction ps) auto

lemma median_replicate: "0 < n \<Longrightarrow> median (replicate n C) = Some C"
  by (auto simp: median_def Let_def elim: oddE)

lemma median_Nil: "median [] = None"
  by (simp add: median_def)

text \<open>
  Claim C6. For every image and every polygon of the collection, masked cells take no
  part in the median: if every unmasked cell of the footprint holds the value \<open>C\<close> and
  there is at least one, the row of the polygon holds exactly \<open>C\<close>; if the footprint has
  no unmasked cell the row holds null (\<open>None\<close>), never 0. The table has one row per
  polygon. (\<^verbatim>\<open>reduceRegions\<close> and the median reducer are the platform's, modelled above.)
\<close>

theorem zonal_median_skips_nodata:
  "(f \<in> set fs \<longrightarrow> (\<forall>p \<in> set (footprint f). im p = None \<or> im p = Some C) \<longrightarrow>
      (\<exists>p \<in> set (footprint f). im p \<noteq> None) \<longrightarrow>
        reduce_feature im f = (object_id f, Some C)
        \<and> (object_id f, Some C) \<in> set (reduceRegions im fs))
   \<and> (f \<in> set fs \<longrightarrow> (\<forall>p \<in> set (footprint f). im p = None) \<longrightarrow>
        reduce_feature im f = (object_id f, None)
        \<and> (object_id f, None) \<in> set (reduceRegions im fs)
        \<and> reduce_feature im f \<noteq> (object_id f, Some 0))
   \<and> length (reduceRegions im fs) = length fs"
proof (intro conjI impI)
  assume f: "f \<in> set fs"
    and cst: "\<forall>p \<in> set (footprint f). im p = None \<or> im p = Some C"
    and ne: "\<exists>p \<in> set (footprint f). im p \<noteq> None"
  let ?vs = "valid_values im (footprint f)"
  have "?vs = replicate (length ?vs) C" using cst by (rule valid_values_const)
  moreover have "0 < length ?vs" using valid_values_nonempty [OF ne] by simp
  ultimately have "median ?vs = Some C" using median_replicate by metis
  then show r: "reduce_feature im f = (object_id f, Some C)"
    by (simp add: reduce_feature_def)
  show "(object_id f, Some C) \<in> set (reduceRegions im fs)"
    using f r by (force simp: reduceRegions_def)
next
  assume f: "f \<in> set fs" and em: "\<forall>p \<in> set (footprint f). im p = None"
  show r: "reduce_feature im f = (object_id f, None)"
    by (simp add: reduce_feature_def valid_values_empty [OF em] median_Nil)
  show "(object_id f, None) \<in> set (reduceRegions im fs)"
    using f r by (force simp: reduceRegions_def)
  show "reduce_feature im f \<noteq> (object_id f, Some 0)"
    using r by simp
qed (simp add: reduceRegions_def)

theorem zonal_median_skips_nodata_witness:
  "reduceRegions (clip (constant_im 5) {(0, 0), (1, 0)})
      [\<lparr>object_id = ''landslide1'', footprint = [(0, 0), (0, 1), (1, 0)]\<rparr>,
       \<lparr>object_id = ''landslide2'', footprint = [(0, 1), (1, 1)]\<rparr>]
     = [(''landslide1'', Some 5), (''landslide2'', None)]"
proof -
  let ?im = "clip (constant_im 5) {(0, 0), (1, 0)}"
  let ?f1 = "\<lparr>object_id = ''landslide1'', footprint = [(0, 0), (0, 1), (1, 0)]\<rparr>"
  let ?f2 = "\<lparr>object_id = ''landslide2'', footprint = [(0, 1), (1, 1)]\<rparr>"
  have "reduce_feature ?im ?f1 = (object_id ?f1, Some 5)"
    using zonal_median_skips_nodata [of ?f1 "[?f1, ?f2]" ?im 5]
    by (simp add: clip_def constant_im_def)
  moreover have "reduce_feature ?im ?f2 = (object_id ?f2, None)"
    using zonal_median_skips_nodata [of ?f2 "[?f1, ?f2]" ?im 5]
    by (simp add: clip_def constant_im_def)
  ultimately show ?thesis by (simp add: reduceRegions_def)
qed

lemma scene_reduceRegions:
  "reduceRegions im (landslides (scene sl asp ang look B))
     = [(''landslide1'', median (valid_values im [(0, 0)]))]"
  by (simp add: reduceRegions_def reduce_feature_def scene_def)

lemma median_single: "median [x] = Some x"
  by (simp add: median_def)

lemma exports_by_description:
  "map_of (exports inp) ''ls_aspects'' = Some (ls_slope inp)
   \<and> map_of (exports inp) ''ls_theta_alpha_difference_T019D'' = Some (ls_theta inp)"
  by (simp add: exports_def)


text \<open>
  Claim C2 describes what the comments of lines 120 and 133 announce, and the script
  misses it: the export named \<^verbatim>\<open>ls_aspects\<close> is handed \<open>ls_slope\<close> and the export named
  \<^verbatim>\<open>ls_theta_alpha_difference_T019D\<close> is handed \<open>ls_theta\<close>, while \<open>ls_aspect\<close> and
  \<open>ls_theta_alpha_difference\<close> are computed and never exported. In the one-cell scene with
  slope 45, aspect 90, incidence angle 45 and look direction 90 degrees the exported
  tables differ from the zonal medians of the aspect and of the local incidence angle.
\<close>

theorem aspect_and_difference_exports_aliased:
  "map_of (exports (scene 45 90 45 90 150)) ''ls_aspects'' = Some [(''landslide1'', Some (pi / 4))]
   \<and> ls_aspect (scene 45 90 45 90 150) = [(''landslide1'', Some (pi / 2))]
   \<and> map_of (exports (scene 45 90 45 90 150)) ''ls_theta_alpha_difference_T019D''
       = Some [(''landslide1'', Some (pi / 4))]
   \<and> ls_theta_alpha_difference (scene 45 90 45 90 150) = [(''landslide1'', Some 0)]"
proof -
  let ?i = "scene 45 90 45 90 150"
  have s: "ls_slope ?i = [(''landslide1'', Some (pi / 4))]"
    by (simp add: ls_slope_def scene_reduceRegions scene_alpha_sRad median_single)
  have t: "ls_theta ?i = [(''landslide1'', Some (pi / 4))]"
    by (simp add: ls_theta_def scene_reduceRegions scene_theta_iRad median_single)
  have a: "ls_aspect ?i = [(''landslide1'', Some (pi / 2))]"
    by (simp add: ls_aspect_def scene_reduceRegions scene_phi_sRad median_single)
  have "theta_iRad_loc ?i (0, 0) = Some 0"
    by (simp add: theta_iRad_loc_px alpha_rRad_px scene_theta_iRad scene_alpha_sRad scene_phi_rRad
        tan_45 arctan_one)
  then have d: "ls_theta_alpha_difference ?i = [(''landslide1'', Some 0)]"
    by (simp add: ls_theta_alpha_difference_def scene_reduceRegions median_single)
  show ?thesis
    by (simp add: exports_def s t a d)
qed


end
